theory Spec2Isabelle
  imports Complex_Main
begin

section \<open>Python values and exceptions\<close>

text \<open>
  The server moves JSON-like Python values between its caller and the mapping provider.
  They are modelled by the datatype \<open>py\<close>. A dictionary is an association list in
  insertion order with string keys; a \<open>datetime\<close> object is a carrier of its civil fields.
  Numbers are exact (\<open>int\<close>, \<open>real\<close>): the code only passes them on, tests them for zero and
  compares them.
\<close>

datatype datetime = DateTime int int int int int int

datatype py =
    PNone
  | PBool bool
  | PInt int
  | PFloat real
  | PStr string
  | PList "py list"
  | PTuple "py list"
  | PDict "(string \<times> py) list"
  | PDateTime datetime

text \<open>
  An exception is its class and the text \<open>str(e)\<close> gives. \<open>Other\<close> names any further
  subclass of \<open>Exception\<close>, such as the errors the provider client raises.
\<close>

datatype exn_class =
    ValueError | RuntimeError | KeyError | IndexError | TypeError | AttributeError
  | Other string

datatype exn = Exn exn_class string

fun exn_class_of :: "exn \<Rightarrow> exn_class" where
  "exn_class_of (Exn c m) = c"

fun str_exn :: "exn \<Rightarrow> string" where
  "str_exn (Exn c m) = m"

fun type_name :: "py \<Rightarrow> string" where
  "type_name PNone = ''NoneType''"
| "type_name (PBool b) = ''bool''"
| "type_name (PInt i) = ''int''"
| "type_name (PFloat r) = ''float''"
| "type_name (PStr s) = ''str''"
| "type_name (PList xs) = ''list''"
| "type_name (PTuple xs) = ''tuple''"
| "type_name (PDict d) = ''dict''"
| "type_name (PDateTime t) = ''datetime.datetime''"

text \<open>Truth value of a Python object, as \<open>if x:\<close> and \<open>not x\<close> test it.\<close>

fun truthy :: "py \<Rightarrow> bool" where
  "truthy PNone = False"
| "truthy (PBool b) = b"
| "truthy (PInt i) = (i \<noteq> 0)"
| "truthy (PFloat r) = (r \<noteq> 0)"
| "truthy (PStr s) = (s \<noteq> [])"
| "truthy (PList xs) = (xs \<noteq> [])"
| "truthy (PTuple xs) = (xs \<noteq> [])"
| "truthy (PDict d) = (d \<noteq> [])"
| "truthy (PDateTime t) = True"

text \<open>A name between single quotes, as Python's messages print it.\<close>

definition quoted :: "string \<Rightarrow> string" where
  "quoted s = [CHR 0x27] @ s @ [CHR 0x27]"

definition not_subscriptable :: "py \<Rightarrow> exn" where
  "not_subscriptable v = Exn TypeError (quoted (type_name v) @ '' object is not subscriptable'')"

text \<open>\<open>x[k]\<close> for a string key \<open>k\<close>.\<close>

fun subscript :: "py \<Rightarrow> string \<Rightarrow> exn + py" where
  "subscript (PDict d) k =
     (case map_of d k of
        Some v \<Rightarrow> Inr v
      | None \<Rightarrow> Inl (Exn KeyError (quoted k)))"
| "subscript (PList xs) k = Inl (Exn TypeError ''list indices must be integers or slices, not str'')"
| "subscript (PTuple xs) k = Inl (Exn TypeError ''tuple indices must be integers or slices, not str'')"
| "subscript (PStr s) k = Inl (Exn TypeError (''string indices must be integers, not '' @ quoted ''str''))"
| "subscript v k = Inl (not_subscriptable v)"

text \<open>\<open>x[0]\<close>.\<close>

fun index0 :: "py \<Rightarrow> exn + py" where
  "index0 (PList xs) =
     (case xs of [] \<Rightarrow> Inl (Exn IndexError ''list index out of range'') | x # _ \<Rightarrow> Inr x)"
| "index0 (PTuple xs) =
     (case xs of [] \<Rightarrow> Inl (Exn IndexError ''tuple index out of range'') | x # _ \<Rightarrow> Inr x)"
| "index0 (PStr s) =
     (case s of [] \<Rightarrow> Inl (Exn IndexError ''string index out of range'') | c # _ \<Rightarrow> Inr (PStr [c]))"
| "index0 (PDict d) = Inl (Exn KeyError ''0'')"
| "index0 v = Inl (not_subscriptable v)"

text \<open>\<open>x.get(k, default)\<close>; \<open>x.get(k)\<close> is \<open>dict_get x k PNone\<close>.\<close>

fun dict_get :: "py \<Rightarrow> string \<Rightarrow> py \<Rightarrow> exn + py" where
  "dict_get (PDict d) k dflt = Inr (case map_of d k of Some v \<Rightarrow> v | None \<Rightarrow> dflt)"
| "dict_get v k dflt =
     Inl (Exn AttributeError (quoted (type_name v) @ '' object has no attribute '' @ quoted ''get''))"

text \<open>The items a \<open>for\<close> loop or a comprehension draws from a value.\<close>

fun iter_py :: "py \<Rightarrow> exn + py list" where
  "iter_py (PList xs) = Inr xs"
| "iter_py (PTuple xs) = Inr xs"
| "iter_py (PStr s) = Inr (map (\<lambda>c. PStr [c]) s)"
| "iter_py (PDict d) = Inr (map (\<lambda>kv. PStr (fst kv)) d)"
| "iter_py v = Inl (Exn TypeError (quoted (type_name v) @ '' object is not iterable''))"

text \<open>\<open>x >= m\<close> for a float \<open>m\<close>: numbers (and booleans, which are integers) compare by value.\<close>

fun ge_float :: "py \<Rightarrow> real \<Rightarrow> exn + bool" where
  "ge_float (PInt i) m = Inr (m \<le> of_int i)"
| "ge_float (PFloat r) m = Inr (m \<le> r)"
| "ge_float (PBool b) m = Inr (m \<le> (if b then 1 else 0))"
| "ge_float v m =
     Inl (Exn TypeError (quoted ''>='' @ '' not supported between instances of ''
            @ quoted (type_name v) @ '' and '' @ quoted ''float''))"

section \<open>Sequencing of fallible and provider-calling code\<close>

definition bindE :: "exn + 'a \<Rightarrow> ('a \<Rightarrow> exn + 'b) \<Rightarrow> exn + 'b" where
  "bindE m f = (case m of Inl e \<Rightarrow> Inl e | Inr x \<Rightarrow> f x)"

text \<open>A comprehension \<open>[f(x) for x in xs]\<close> whose \<open>f\<close> may raise.\<close>

fun map_raise :: "('a \<Rightarrow> exn + 'b) \<Rightarrow> 'a list \<Rightarrow> exn + 'b list" where
  "map_raise f [] = Inr []"
| "map_raise f (x # xs) =
     bindE (f x) (\<lambda>y. bindE (map_raise f xs) (\<lambda>ys. Inr (y # ys)))"

text \<open>
  The provider is reached through the methods of the client object. A request records the
  method and its arguments; the client answers a request with a value or raises.
\<close>

datatype request =
    Geocode py string
  | ReverseGeocode py string
  | PlacesNearby "(string \<times> py) list"
  | Place string "string list" string
  | DistanceMatrix "string list" "string list" string string
  | Directions "(string \<times> py) list"
  | Elevation "py list"

record tools =
  client :: "request \<Rightarrow> exn + py"
  default_language :: string

text \<open>
  A computation that may call the provider returns its outcome together with the
  requests it issued, in order.
\<close>

type_synonym 'a io = "(exn + 'a) \<times> request list"

definition call :: "tools \<Rightarrow> request \<Rightarrow> py io" where
  "call self req = (client self req, [req])"

definition lift :: "exn + 'a \<Rightarrow> 'a io" where
  "lift r = (r, [])"

definition bindIO :: "'a io \<Rightarrow> ('a \<Rightarrow> 'b io) \<Rightarrow> 'b io" where
  "bindIO m f =
     (case m of
        (Inl e, rs) \<Rightarrow> (Inl e, rs)
      | (Inr x, rs) \<Rightarrow> (case f x of (r, rs') \<Rightarrow> (r, rs @ rs')))"

text \<open>\<open>try: body except Exception as e: raise C(prefix + str(e))\<close>.\<close>

definition except_raise :: "exn_class \<Rightarrow> string \<Rightarrow> 'a io \<Rightarrow> 'a io" where
  "except_raise c prefix m =
     (case m of
        (Inl e, rs) \<Rightarrow> (Inl (Exn c (prefix @ str_exn e)), rs)
      | (Inr x, rs) \<Rightarrow> (Inr x, rs))"

text \<open>
  Functions of the Python library the code calls: \<open>float\<close> on a string, \<open>str\<close> on a value,
  \<open>datetime.fromisoformat\<close>, \<open>datetime.fromtimestamp\<close> (local time zone) and
  \<open>datetime.strftime\<close>.
\<close>

record pylib =
  float_str :: "string \<Rightarrow> real option"
  str_py :: "py \<Rightarrow> string"
  fromisoformat :: "string \<Rightarrow> exn + datetime"
  fromtimestamp :: "py \<Rightarrow> exn + datetime"
  strftime :: "string \<Rightarrow> datetime \<Rightarrow> string"

section \<open>The provider adapter: class GoogleMapsTools\<close>

subsection \<open>parse_coordinates\<close>

fun split_on :: "char \<Rightarrow> string \<Rightarrow> string list" where
  "split_on sep [] = [[]]"
| "split_on sep (c # cs) =
     (if c = sep then [] # split_on sep cs
      else (case split_on sep cs of t # ts \<Rightarrow> (c # t) # ts | [] \<Rightarrow> [[c]]))"

text \<open>Whitespace of \<open>str.strip()\<close> among the code points below 256.\<close>

definition is_space :: "char \<Rightarrow> bool" where
  "is_space c = (of_char c \<in> {9, 10, 11, 12, 13, 28, 29, 30, 31, 32, 133, 160 :: nat})"

definition strip :: "string \<Rightarrow> string" where
  "strip s = rev (dropWhile is_space (rev (dropWhile is_space s)))"

text \<open>\<open>[float(c.strip()) for c in tokens]\<close>: the first token that is no number raises.\<close>

fun floats_of :: "pylib \<Rightarrow> string list \<Rightarrow> exn + real list" where
  "floats_of L [] = Inr []"
| "floats_of L (c # cs) =
     (case float_str L (strip c) of
        None \<Rightarrow> Inl (Exn ValueError (''could not convert string to float: '' @ quoted (strip c)))
      | Some x \<Rightarrow> bindE (floats_of L cs) (\<lambda>xs. Inr (x # xs)))"

definition parse_coordinates :: "pylib \<Rightarrow> py \<Rightarrow> exn + py" where
  "parse_coordinates L coord_string =
     (case
        (case coord_string of
           PStr s \<Rightarrow>
             bindE (floats_of L (split_on (CHR '','') s)) (\<lambda>coords.
               (case coords of
                  [lat, lng] \<Rightarrow> Inr (PDict [(''lat'', PFloat lat), (''lng'', PFloat lng)])
                | _ \<Rightarrow> Inl (Exn ValueError ''Invalid coordinate format'')))
         | v \<Rightarrow> Inl (Exn AttributeError
                   (quoted (type_name v) @ '' object has no attribute '' @ quoted ''split'')))
      of
        Inl (Exn c m) \<Rightarrow>
          (if c = ValueError \<or> c = IndexError
           then Inl (Exn ValueError
                  (''Invalid coorindate format, please use '' @ quoted ''latitude, longitude''
                    @ '' format''))
           else Inl (Exn c m))
      | Inr v \<Rightarrow> Inr v)"

subsection \<open>geocode_address and get_location\<close>

definition geocode_address :: "tools \<Rightarrow> py \<Rightarrow> py io" where
  "geocode_address self address =
     except_raise ValueError ''Error geocoding address: ''
       (bindIO (call self (Geocode address (default_language self))) (\<lambda>result. lift
          (if \<not> truthy result then Inl (Exn ValueError ''Address not found'')
           else
             bindE (index0 result) (\<lambda>location_data.
             bindE (subscript location_data ''geometry'') (\<lambda>geometry.
             bindE (subscript geometry ''location'') (\<lambda>location.
             bindE (subscript location ''lat'') (\<lambda>lat.
             bindE (subscript location ''lng'') (\<lambda>lng.
             bindE (dict_get location_data ''formatted_address'' (PStr [])) (\<lambda>formatted_address.
             bindE (dict_get location_data ''place_id'' (PStr [])) (\<lambda>place_id.
               Inr (PDict [(''lat'', lat), (''lng'', lng),
                           (''formatted_address'', formatted_address),
                           (''place_id'', place_id)])))))))))))"

definition get_location :: "pylib \<Rightarrow> tools \<Rightarrow> py \<Rightarrow> py io" where
  "get_location L self center =
     bindIO (lift (dict_get center ''isCoordinates'' (PBool False))) (\<lambda>is_coordinates.
     bindIO (lift (subscript center ''value'')) (\<lambda>v.
       if truthy is_coordinates then lift (parse_coordinates L v)
       else geocode_address self v))"

text \<open>
  A dictionary display \<open>{k1: e1, k2: e2, ...}\<close>: the values are computed in order and the
  first one that raises ends the display.
\<close>

fun dict_items :: "(string \<times> (exn + py)) list \<Rightarrow> exn + (string \<times> py) list" where
  "dict_items [] = Inr []"
| "dict_items ((k, Inl e) # kvs) = Inl e"
| "dict_items ((k, Inr v) # kvs) = bindE (dict_items kvs) (\<lambda>rest. Inr ((k, v) # rest))"

definition dict_lit :: "(string \<times> (exn + py)) list \<Rightarrow> exn + py" where
  "dict_lit kvs = bindE (dict_items kvs) (\<lambda>items. Inr (PDict items))"

text \<open>\<open>x.get(k1, {}).get(k2, default)\<close>.\<close>

definition dict_get2 :: "py \<Rightarrow> string \<Rightarrow> string \<Rightarrow> py \<Rightarrow> exn + py" where
  "dict_get2 x k1 k2 dflt = bindE (dict_get x k1 (PDict [])) (\<lambda>inner. dict_get inner k2 dflt)"

text \<open>\<open>x[k1][k2]\<close>.\<close>

definition subscript2 :: "py \<Rightarrow> string \<Rightarrow> string \<Rightarrow> exn + py" where
  "subscript2 x k1 k2 = bindE (subscript x k1) (\<lambda>inner. subscript inner k2)"

subsection \<open>search_nearby_places\<close>

text \<open>
  The parameter dictionary, with the value types the gateway declares. \<open>None\<close> stands for
  a key that is absent or holds \<open>None\<close>; an absent \<open>openNow\<close> is \<open>False\<close>.
\<close>

record nearby_params =
  location :: py
  keyword :: "string option"
  radius :: "int option"
  openNow :: bool
  minRating :: "real option"

text \<open>\<open>[place for place in places if place.get("rating", 0) >= min_rating]\<close>.\<close>

fun filter_rating :: "real \<Rightarrow> py list \<Rightarrow> exn + py list" where
  "filter_rating min_rating [] = Inr []"
| "filter_rating min_rating (place # places) =
     bindE (dict_get place ''rating'' (PInt 0)) (\<lambda>rating.
     bindE (ge_float rating min_rating) (\<lambda>keep.
     bindE (filter_rating min_rating places) (\<lambda>rest.
       Inr (if keep then place # rest else rest))))"

text \<open>The keyword arguments of the provider request.\<close>

definition search_params :: "tools \<Rightarrow> nearby_params \<Rightarrow> py \<Rightarrow> py \<Rightarrow> (string \<times> py) list" where
  "search_params self params lat lng =
     [(''location'', PTuple [lat, lng]),
      (''radius'', PInt (case radius params of None \<Rightarrow> 1000 | Some r \<Rightarrow> r)),
      (''language'', PStr (default_language self))]
     @ (case keyword params of
          None \<Rightarrow> []
        | Some k \<Rightarrow> if k \<noteq> [] then [(''keyword'', PStr k)] else [])
     @ (if openNow params then [(''openNow'', PBool True)] else [])"

text \<open>The rating filter: applied when \<open>minRating\<close> is given and is not zero.\<close>

definition filter_places :: "real option \<Rightarrow> py \<Rightarrow> exn + py" where
  "filter_places min_rating_arg places =
     (case min_rating_arg of
        None \<Rightarrow> Inr places
      | Some min_rating \<Rightarrow>
          if min_rating \<noteq> 0
          then bindE (iter_py places) (\<lambda>ps.
               bindE (filter_rating min_rating ps) (\<lambda>kept. Inr (PList kept)))
          else Inr places)"

definition search_nearby_places :: "tools \<Rightarrow> nearby_params \<Rightarrow> py io" where
  "search_nearby_places self params =
     except_raise ValueError ''Error searching nearby places: ''
       (bindIO (lift (subscript (location params) ''lat'')) (\<lambda>lat.
        bindIO (lift (subscript (location params) ''lng'')) (\<lambda>lng.
        bindIO (call self (PlacesNearby (search_params self params lat lng))) (\<lambda>result.
        bindIO (lift (dict_get result ''results'' (PList []))) (\<lambda>places.
          lift (filter_places (minRating params) places))))))"

subsection \<open>get_place_details\<close>

definition place_fields :: "string list" where
  "place_fields =
     [''name'', ''rating'', ''formatted_address'', ''opening_hours'',
      ''reviews'', ''geometry'', ''formatted_phone_number'', ''website'',
      ''price_level'', ''photos'', ''user_ratings_total'']"

definition get_place_details :: "tools \<Rightarrow> string \<Rightarrow> py io" where
  "get_place_details self place_id =
     except_raise ValueError ''Error getting place details: ''
       (bindIO (call self (Place place_id place_fields (default_language self))) (\<lambda>result.
          lift (dict_get result ''result'' (PDict []))))"

subsection \<open>geocode and reverse_geocode\<close>

definition geocode :: "tools \<Rightarrow> string \<Rightarrow> py io" where
  "geocode self address =
     except_raise ValueError ''Error geocoding: ''
       (bindIO (geocode_address self (PStr address)) (\<lambda>result. lift
          (dict_lit
             [(''location'', dict_lit [(''lat'', subscript result ''lat''),
                                       (''lng'', subscript result ''lng'')]),
              (''formatted_address'', subscript result ''formatted_address''),
              (''place_id'', subscript result ''place_id'')])))"

definition reverse_geocode :: "tools \<Rightarrow> real \<Rightarrow> real \<Rightarrow> py io" where
  "reverse_geocode self latitude longitude =
     except_raise ValueError ''Error reverse geocoding: ''
       (bindIO (call self (ReverseGeocode (PTuple [PFloat latitude, PFloat longitude])
                             (default_language self))) (\<lambda>result. lift
          (if \<not> truthy result then Inl (Exn ValueError ''No address found for coordinates'')
           else
             bindE (index0 result) (\<lambda>location_data.
               dict_lit
                 [(''formatted_address'', dict_get location_data ''formatted_address'' (PStr [])),
                  (''place_id'', dict_get location_data ''place_id'' (PStr [])),
                  (''address_components'',
                     dict_get location_data ''address_components'' (PList []))]))))"

subsection \<open>calculate_distance_matrix\<close>

text \<open>\<open>x == k\<close> and \<open>x != k\<close> for a string \<open>k\<close>: a value that is no string differs from it.\<close>

fun eq_str :: "py \<Rightarrow> string \<Rightarrow> bool" where
  "eq_str (PStr s) k = (s = k)"
| "eq_str v k = False"

text \<open>The text an f-string puts in for a value: a string stands for itself.\<close>

definition format_py :: "pylib \<Rightarrow> py \<Rightarrow> string" where
  "format_py L v = (case v of PStr s \<Rightarrow> s | _ \<Rightarrow> str_py L v)"

text \<open>The \<open>{value, text}\<close> pair read from \<open>element[k]\<close>.\<close>

definition value_text :: "py \<Rightarrow> string \<Rightarrow> exn + py" where
  "value_text element k =
     dict_lit [(''value'', subscript2 element k ''value''),
               (''text'', subscript2 element k ''text'')]"

text \<open>The inner loop: one cell of each array per element of the row.\<close>

fun matrix_row :: "py list \<Rightarrow> exn + py list \<times> py list" where
  "matrix_row [] = Inr ([], [])"
| "matrix_row (element # elements) =
     bindE (subscript element ''status'') (\<lambda>status.
     bindE (if eq_str status ''OK''
            then bindE (value_text element ''distance'') (\<lambda>distance.
                 bindE (value_text element ''duration'') (\<lambda>duration.
                   Inr (distance, duration)))
            else Inr (PNone, PNone)) (\<lambda>(distance, duration).
     bindE (matrix_row elements) (\<lambda>(distance_row, duration_row).
       Inr (distance # distance_row, duration # duration_row))))"

text \<open>The outer loop: one row of each array per row of the response.\<close>

fun matrix_rows :: "py list \<Rightarrow> exn + py list \<times> py list" where
  "matrix_rows [] = Inr ([], [])"
| "matrix_rows (row # rows) =
     bindE (subscript row ''elements'') (\<lambda>elements_v.
     bindE (iter_py elements_v) (\<lambda>elements.
     bindE (matrix_row elements) (\<lambda>(distance_row, duration_row).
     bindE (matrix_rows rows) (\<lambda>(distances, durations).
       Inr (PList distance_row # distances, PList duration_row # durations)))))"

definition calculate_distance_matrix ::
  "pylib \<Rightarrow> tools \<Rightarrow> string list \<Rightarrow> string list \<Rightarrow> string \<Rightarrow> py io" where
  "calculate_distance_matrix L self origins destinations mode =
     except_raise ValueError ''Error calculating distance matrix: ''
       (bindIO (call self (DistanceMatrix origins destinations mode (default_language self)))
          (\<lambda>result. lift
            (bindE (subscript result ''status'') (\<lambda>status.
               if \<not> eq_str status ''OK''
               then Inl (Exn ValueError
                      (''Distance matrix calculation failed: '' @ format_py L status))
               else
                 bindE (subscript result ''rows'') (\<lambda>rows_v.
                 bindE (iter_py rows_v) (\<lambda>rows.
                 bindE (matrix_rows rows) (\<lambda>(distances, durations).
                   dict_lit
                     [(''distances'', Inr (PList distances)),
                      (''durations'', Inr (PList durations)),
                      (''origin_addresses'', subscript result ''origin_addresses''),
                      (''destination_addresses'',
                         subscript result ''destination_addresses'')])))))))"

subsection \<open>get_directions\<close>

text \<open>\<open>k in s\<close> for strings: \<open>k\<close> occurs in \<open>s\<close> as a substring.\<close>

fun has_infix :: "string \<Rightarrow> string \<Rightarrow> bool" where
  "has_infix k [] = (k = [])"
| "has_infix k (c # cs) = (take (length k) (c # cs) = k \<or> has_infix k cs)"

text \<open>\<open>k in x\<close> for a string \<open>k\<close>.\<close>

fun contains_str :: "py \<Rightarrow> string \<Rightarrow> exn + bool" where
  "contains_str (PDict d) k = Inr (map_of d k \<noteq> None)"
| "contains_str (PList xs) k = Inr (PStr k \<in> set xs)"
| "contains_str (PTuple xs) k = Inr (PStr k \<in> set xs)"
| "contains_str (PStr s) k = Inr (has_infix k s)"
| "contains_str v k =
     Inl (Exn TypeError (''argument of type '' @ quoted (type_name v) @ '' is not iterable''))"

text \<open>The nested function \<open>format_time\<close>.\<close>

definition format_time :: "pylib \<Rightarrow> py \<Rightarrow> exn + py" where
  "format_time L time_info =
     (if \<not> truthy time_info then Inr (PStr [])
      else
        bindE (contains_str time_info ''value'') (\<lambda>has_value.
          if \<not> has_value then Inr (PStr [])
          else
            bindE (subscript time_info ''value'') (\<lambda>v.
            bindE (fromtimestamp L v) (\<lambda>t.
              Inr (PStr (strftime L ''%Y-%m-%d %H:%M:%S'' t))))))"

text \<open>The keyword arguments of the provider request.\<close>

definition directions_params ::
  "tools \<Rightarrow> string \<Rightarrow> string \<Rightarrow> string \<Rightarrow> datetime option \<Rightarrow> datetime option
     \<Rightarrow> (string \<times> py) list" where
  "directions_params self origin destination mode departure_time arrival_time =
     [(''origin'', PStr origin),
      (''destination'', PStr destination),
      (''mode'', PStr mode),
      (''language'', PStr (default_language self))]
     @ (case arrival_time of
          Some a \<Rightarrow> [(''arrival_time'', PDateTime a)]
        | None \<Rightarrow>
            (case departure_time of
               Some d \<Rightarrow> [(''departure_time'', PDateTime d)]
             | None \<Rightarrow> [(''departure_time'', PNone)]))"

definition get_directions ::
  "pylib \<Rightarrow> tools \<Rightarrow> string \<Rightarrow> string \<Rightarrow> string \<Rightarrow> datetime option \<Rightarrow> datetime option
     \<Rightarrow> py io" where
  "get_directions L self origin destination mode departure_time arrival_time =
     except_raise ValueError ''Error getting directions: ''
       (bindIO (call self (Directions
                  (directions_params self origin destination mode departure_time arrival_time)))
          (\<lambda>result. lift
            (if \<not> truthy result then Inl (Exn ValueError ''No route found'')
             else
               bindE (index0 result) (\<lambda>route.
               bindE (subscript route ''legs'') (\<lambda>legs.
               bindE (index0 legs) (\<lambda>leg.
                 dict_lit
                   [(''routes'', Inr result),
                    (''summary'', dict_get route ''summary'' (PStr [])),
                    (''total_distance'', value_text leg ''distance''),
                    (''total_duration'', value_text leg ''duration''),
                    (''arrival_time'',
                       bindE (dict_get leg ''arrival_time'' PNone) (format_time L)),
                    (''departure_time'',
                       bindE (dict_get leg ''departure_time'' PNone) (format_time L))]))))))"

subsection \<open>get_elevation\<close>

text \<open>The tuple \<open>(loc["latitude"], loc["longitude"])\<close>.\<close>

definition location_tuple :: "py \<Rightarrow> exn + py" where
  "location_tuple loc =
     bindE (subscript loc ''latitude'') (\<lambda>latitude.
     bindE (subscript loc ''longitude'') (\<lambda>longitude.
       Inr (PTuple [latitude, longitude])))"

definition elevation_sample :: "py \<Rightarrow> exn + py" where
  "elevation_sample item =
     dict_lit
       [(''elevation'', subscript item ''elevation''),
        (''location'', dict_lit [(''lat'', subscript2 item ''location'' ''lat''),
                                 (''lng'', subscript2 item ''location'' ''lng'')])]"

definition get_elevation :: "tools \<Rightarrow> py \<Rightarrow> py io" where
  "get_elevation self locations =
     except_raise ValueError ''Error getting elevation data: ''
       (bindIO (lift (bindE (iter_py locations) (map_raise location_tuple)))
          (\<lambda>formatted_locations.
        bindIO (call self (Elevation formatted_locations)) (\<lambda>result. lift
          (bindE (iter_py result) (\<lambda>items.
           bindE (map_raise elevation_sample items) (\<lambda>samples.
             Inr (PList samples)))))))"

section \<open>The tool gateway: server.py\<close>

text \<open>
  The global \<open>maps_tools\<close> is \<open>None\<close> until \<open>main\<close> has built the adapter; every tool reads
  it, so it is an argument here. Tool arguments have the types the signatures declare.
\<close>

definition not_initialized :: "string \<Rightarrow> 'a io" where
  "not_initialized msg = lift (Inl (Exn RuntimeError msg))"

subsection \<open>search_nearby\<close>

definition format_place :: "py \<Rightarrow> exn + py" where
  "format_place place =
     dict_lit
       [(''name'', dict_get place ''name'' PNone),
        (''place_id'', dict_get place ''place_id'' PNone),
        (''address'', dict_get place ''formatted_address'' PNone),
        (''location'', dict_get2 place ''geometry'' ''location'' PNone),
        (''rating'', dict_get place ''rating'' PNone),
        (''total_ratings'', dict_get place ''user_ratings_total'' PNone),
        (''open_now'', dict_get2 place ''opening_hours'' ''open_now'' PNone),
        (''types'', dict_get place ''types'' (PList [])),
        (''price_level'', dict_get place ''price_level'' PNone),
        (''vicinity'', dict_get place ''vicinity'' PNone)]"

definition search_nearby ::
  "pylib \<Rightarrow> tools option \<Rightarrow> py \<Rightarrow> string option \<Rightarrow> int \<Rightarrow> bool \<Rightarrow> real option \<Rightarrow> py io" where
  "search_nearby L maps_tools center kw rad open_now min_rating =
     (case maps_tools of
        None \<Rightarrow> not_initialized ''Google Map Tools not initialized''
      | Some mt \<Rightarrow>
          except_raise RuntimeError ''Search failed: ''
            (bindIO (get_location L mt center) (\<lambda>loc.
             bindIO (search_nearby_places mt
                       \<lparr>location = loc, keyword = kw, radius = Some rad,
                        openNow = open_now, minRating = min_rating\<rparr>) (\<lambda>places. lift
               (bindE (iter_py places) (\<lambda>ps.
                bindE (map_raise format_place ps) (\<lambda>formatted_places.
                  dict_lit
                    [(''location'', Inr loc),
                     (''places'', Inr (PList formatted_places)),
                     (''total_results'', Inr (PInt (int (length formatted_places))))])))))))"

subsection \<open>get_place_details (the tool)\<close>

definition format_photo :: "py \<Rightarrow> exn + py" where
  "format_photo photo =
     dict_lit
       [(''photo_reference'', dict_get photo ''photo_reference'' PNone),
        (''height'', dict_get photo ''height'' PNone),
        (''width'', dict_get photo ''width'' PNone)]"

definition format_review :: "py \<Rightarrow> exn + py" where
  "format_review review =
     dict_lit
       [(''rating'', dict_get review ''rating'' PNone),
        (''text'', dict_get review ''text'' PNone),
        (''time'', dict_get review ''time'' PNone),
        (''author_name'', dict_get review ''author_name'' PNone),
        (''author_url'', dict_get review ''author_url'' PNone),
        (''language'', dict_get review ''language'' PNone),
        (''profile_photo_url'', dict_get review ''profile_photo_url'' PNone),
        (''relative_time_description'', dict_get review ''relative_time_description'' PNone)]"

text \<open>\<open>[f(x) for x in details.get(k, [])]\<close>.\<close>

definition format_each :: "(py \<Rightarrow> exn + py) \<Rightarrow> py \<Rightarrow> string \<Rightarrow> exn + py" where
  "format_each f details k =
     bindE (dict_get details k (PList [])) (\<lambda>xs_v.
     bindE (iter_py xs_v) (\<lambda>xs.
     bindE (map_raise f xs) (\<lambda>ys. Inr (PList ys))))"

definition format_details :: "string \<Rightarrow> py \<Rightarrow> exn + py" where
  "format_details placeId details =
     dict_lit
       [(''name'', dict_get details ''name'' PNone),
        (''place_id'', Inr (PStr placeId)),
        (''address'', dict_get details ''formatted_address'' PNone),
        (''location'', dict_get2 details ''geometry'' ''location'' PNone),
        (''rating'', dict_get details ''rating'' PNone),
        (''total_ratings'', dict_get details ''user_ratings_total'' PNone),
        (''open_now'', dict_get2 details ''opening_hours'' ''open_now'' PNone),
        (''opening_hours'', dict_get2 details ''opening_hours'' ''weekday_text'' (PList [])),
        (''phone'', dict_get details ''formatted_phone_number'' PNone),
        (''international_phone'', dict_get details ''international_phone_number'' PNone),
        (''website'', dict_get details ''website'' PNone),
        (''url'', dict_get details ''url'' PNone),
        (''price_level'', dict_get details ''price_level'' PNone),
        (''types'', dict_get details ''types'' (PList [])),
        (''photos'', format_each format_photo details ''photos''),
        (''reviews'', format_each format_review details ''reviews'')]"

definition server_get_place_details :: "tools option \<Rightarrow> string \<Rightarrow> py io" where
  "server_get_place_details maps_tools placeId =
     (case maps_tools of
        None \<Rightarrow> not_initialized ''Google Maps tools not initialized''
      | Some mt \<Rightarrow>
          except_raise RuntimeError ''Failed to get place details: ''
            (bindIO (get_place_details mt placeId) (\<lambda>details.
               lift (format_details placeId details))))"

subsection \<open>The remaining tools\<close>

definition maps_geocode :: "tools option \<Rightarrow> string \<Rightarrow> py io" where
  "maps_geocode maps_tools address =
     (case maps_tools of
        None \<Rightarrow> not_initialized ''Google Maps tools not initialized''
      | Some mt \<Rightarrow> except_raise RuntimeError ''Geocoding failed: '' (geocode mt address))"

definition maps_reverse_geocode :: "tools option \<Rightarrow> real \<Rightarrow> real \<Rightarrow> py io" where
  "maps_reverse_geocode maps_tools latitude longitude =
     (case maps_tools of
        None \<Rightarrow> not_initialized ''Google Maps tools not initialized''
      | Some mt \<Rightarrow>
          except_raise RuntimeError ''Reverse geocoding failed: ''
            (reverse_geocode mt latitude longitude))"

definition maps_distance_matrix ::
  "pylib \<Rightarrow> tools option \<Rightarrow> string list \<Rightarrow> string list \<Rightarrow> string \<Rightarrow> py io" where
  "maps_distance_matrix L maps_tools origins destinations mode =
     (case maps_tools of
        None \<Rightarrow> not_initialized ''Google Maps tools not initialized''
      | Some mt \<Rightarrow>
          except_raise RuntimeError ''Distance matrix calculation failed: ''
            (calculate_distance_matrix L mt origins destinations mode))"

text \<open>\<open>s.replace('Z', '+00:00')\<close>.\<close>

definition replace_Z :: "string \<Rightarrow> string" where
  "replace_Z s = concat (map (\<lambda>c. if c = CHR ''Z'' then ''+00:00'' else [c]) s)"

text \<open>
  One time argument: an absent or empty string gives \<open>None\<close>; otherwise the string is
  parsed with \<open>Z\<close> replaced, and as it stands when that raises \<open>ValueError\<close>.
\<close>

definition parse_time :: "pylib \<Rightarrow> string option \<Rightarrow> exn + datetime option" where
  "parse_time L time_arg =
     (case time_arg of
        None \<Rightarrow> Inr None
      | Some s \<Rightarrow>
          if s = [] then Inr None
          else
            (case fromisoformat L (replace_Z s) of
               Inr t \<Rightarrow> Inr (Some t)
             | Inl (Exn c m) \<Rightarrow>
                 if c = ValueError
                 then bindE (fromisoformat L s) (\<lambda>t. Inr (Some t))
                 else Inl (Exn c m)))"

definition maps_directions ::
  "pylib \<Rightarrow> tools option \<Rightarrow> string \<Rightarrow> string \<Rightarrow> string \<Rightarrow> string option \<Rightarrow> string option
     \<Rightarrow> py io" where
  "maps_directions L maps_tools origin destination mode departure_time arrival_time =
     (case maps_tools of
        None \<Rightarrow> not_initialized ''Google Maps tools not initialized''
      | Some mt \<Rightarrow>
          except_raise RuntimeError ''Failed to get directions: ''
            (bindIO (lift (parse_time L departure_time)) (\<lambda>dept_time.
             bindIO (lift (parse_time L arrival_time)) (\<lambda>arr_time.
               get_directions L mt origin destination mode dept_time arr_time))))"

definition maps_elevation :: "tools option \<Rightarrow> py \<Rightarrow> py io" where
  "maps_elevation maps_tools locations =
     (case maps_tools of
        None \<Rightarrow> not_initialized ''Google Maps tools not initialized''
      | Some mt \<Rightarrow>
          except_raise RuntimeError ''Failed to get elevation data: '' (get_elevation mt locations))"

section \<open>Example providers\<close>

text \<open>
  Stand-ins for the provider client and the Python library, used to run the operations
  on concrete inputs. \<open>example_float\<close> knows the numerals of the examples.
\<close>

definition example_float :: "string \<Rightarrow> real option" where
  "example_float s =
     (if s = ''52.5'' then Some (105 / 2)
      else if s = ''4.75'' then Some (19 / 4)
      else if s = ''999'' then Some 999
      else None)"

definition example_lib :: pylib where
  "example_lib =
     \<lparr>float_str = example_float,
      str_py = (\<lambda>v. type_name v),
      fromisoformat = (\<lambda>s. Inr (DateTime 2026 1 5 8 0 0)),
      fromtimestamp = (\<lambda>v. Inr (DateTime 2026 1 5 9 30 0)),
      strftime = (\<lambda>fmt t. ''2026-01-05 09:30:00'')\<rparr>"

definition example_leg :: py where
  "example_leg =
     PDict [(''distance'', PDict [(''value'', PInt 1200), (''text'', PStr ''1.2 km'')]),
            (''duration'', PDict [(''value'', PInt 300), (''text'', PStr ''5 mins'')]),
            (''arrival_time'', PDict [(''value'', PInt 1767605400)])]"

definition example_route :: py where
  "example_route =
     PDict [(''summary'', PStr ''A2''),
            (''legs'', PList [example_leg, PDict [(''distance'', PNone)]])]"

definition example_matrix :: py where
  "example_matrix =
     PDict [(''status'', PStr ''OK''),
            (''rows'',
               PList [PDict [(''elements'',
                 PList [PDict [(''status'', PStr ''OK''),
                               (''distance'', PDict [(''value'', PInt 1200), (''text'', PStr ''1.2 km'')]),
                               (''duration'', PDict [(''value'', PInt 300), (''text'', PStr ''5 mins'')])],
                        PDict [(''status'', PStr ''ZERO_RESULTS'')]])]]),
            (''origin_addresses'', PList [PStr ''Eindhoven'']),
            (''destination_addresses'', PList [PStr ''Geldrop'', PStr ''Atlantis''])]"

definition example_places :: "py list" where
  "example_places =
     [PDict [(''name'', PStr ''Cafe A''), (''rating'', PFloat (47 / 10))],
      PDict [(''name'', PStr ''Cafe B'')],
      PDict [(''name'', PStr ''Cafe C''), (''rating'', PInt 4)]]"

definition example_client :: "request \<Rightarrow> exn + py" where
  "example_client req =
     (case req of
        Geocode address lang \<Rightarrow>
          Inr (PList [PDict [(''geometry'',
                 PDict [(''location'', PDict [(''lat'', PFloat (105 / 2)), (''lng'', PFloat (19 / 4))])]),
                 (''formatted_address'', PStr ''Stationsplein 1''),
                 (''place_id'', PStr ''p1'')]])
      | ReverseGeocode latlng lang \<Rightarrow>
          Inr (PList [PDict [(''formatted_address'', PStr ''Stationsplein 1''),
                             (''place_id'', PStr ''p1'')]])
      | PlacesNearby kwargs \<Rightarrow> Inr (PDict [(''results'', PList example_places)])
      | Place place_id fs lang \<Rightarrow> Inr (PDict [(''status'', PStr ''NOT_FOUND'')])
      | DistanceMatrix origins destinations mode lang \<Rightarrow> Inr example_matrix
      | Directions kwargs \<Rightarrow> Inr (PList [example_route, PDict [(''summary'', PStr ''N270'')]])
      | Elevation points \<Rightarrow>
          Inr (PList [PDict [(''elevation'', PFloat (35 / 2)),
                             (''location'', PDict [(''lat'', PInt 51), (''lng'', PInt 5)])],
                      PDict [(''elevation'', PInt 3),
                             (''location'', PDict [(''lat'', PInt 52), (''lng'', PInt 4)])]]))"

definition example_tools :: tools where
  "example_tools = \<lparr>client = example_client, default_language = ''zh-TW''\<rparr>"

text \<open>A provider that finds nothing, and one that rejects every request.\<close>

definition empty_client :: "request \<Rightarrow> exn + py" where
  "empty_client req =
     (case req of
        PlacesNearby kwargs \<Rightarrow> Inr (PDict [(''results'', PList [])])
      | Place place_id fs lang \<Rightarrow> Inr (PDict [])
      | DistanceMatrix origins destinations mode lang \<Rightarrow>
          Inr (PDict [(''status'', PStr ''OK''), (''rows'', PList []),
                      (''origin_addresses'', PList []), (''destination_addresses'', PList [])])
      | _ \<Rightarrow> Inr (PList []))"

definition empty_tools :: tools where
  "empty_tools = \<lparr>client = empty_client, default_language = ''zh-TW''\<rparr>"

definition failing_tools :: tools where
  "failing_tools =
     \<lparr>client = (\<lambda>req. Inl (Exn (Other ''ApiError'') ''REQUEST_DENIED'')),
      default_language = ''zh-TW''\<rparr>"

section \<open>Notions used in the properties\<close>


text \<open>
  The test of the rating filter holds for a place: its rating, 0 when the field is
  missing, is a number not below the minimum.
\<close>

definition meets_rating :: "real \<Rightarrow> py \<Rightarrow> bool" where
  "meets_rating min_rating place =
     (bindE (dict_get place ''rating'' (PInt 0)) (\<lambda>rating. ge_float rating min_rating)
        = Inr True)"

text \<open>A \<open>{value, text}\<close> pair.\<close>

fun is_value_text :: "py \<Rightarrow> bool" where
  "is_value_text (PDict [(k1, v), (k2, t)]) = (k1 = ''value'' \<and> k2 = ''text'')"
| "is_value_text v = False"

text \<open>
  The two cells that answer a provider element: the element's distance and duration as
  \<open>{value, text}\<close> pairs when its status is \<open>OK\<close>, and \<open>None\<close> twice otherwise.
\<close>

definition cell_matches :: "py \<Rightarrow> py \<Rightarrow> py \<Rightarrow> bool" where
  "cell_matches element d u =
     (case subscript element ''status'' of
        Inl e \<Rightarrow> False
      | Inr status \<Rightarrow>
          if eq_str status ''OK''
          then value_text element ''distance'' = Inr d \<and> is_value_text d
             \<and> value_text element ''duration'' = Inr u \<and> is_value_text u
          else d = PNone \<and> u = PNone)"

text \<open>The elements of a row of the provider's response.\<close>

definition elements_of :: "py \<Rightarrow> exn + py list" where
  "elements_of row = bindE (subscript row ''elements'') iter_py"

text \<open>
  Two output rows answer a response row: they are lists with one cell for each element
  of the row, in order.
\<close>

definition row_matches :: "py \<Rightarrow> py \<Rightarrow> py \<Rightarrow> bool" where
  "row_matches row d u =
     (case (elements_of row, d, u) of
        (Inr elements, PList drow, PList urow) \<Rightarrow>
          list_all2 (\<lambda>element (dc, uc). cell_matches element dc uc) elements (zip drow urow)
          \<and> length drow = length elements \<and> length urow = length elements
      | _ \<Rightarrow> False)"

text \<open>The two output arrays answer the response rows, row by row in order.\<close>

definition matrix_matches :: "py list \<Rightarrow> py list \<Rightarrow> py list \<Rightarrow> bool" where
  "matrix_matches rows distances durations =
     (list_all2 (\<lambda>row (d, u). row_matches row d u) rows (zip distances durations)
      \<and> length distances = length rows \<and> length durations = length rows)"

text \<open>An array of \<open>n\<close> rows of \<open>m\<close> cells; a response of \<open>n\<close> rows of \<open>m\<close> elements.\<close>

definition has_shape :: "nat \<Rightarrow> nat \<Rightarrow> py list \<Rightarrow> bool" where
  "has_shape n m xs =
     (length xs = n \<and> list_all (\<lambda>r. case r of PList cs \<Rightarrow> length cs = m | _ \<Rightarrow> False) xs)"

definition response_shape :: "nat \<Rightarrow> nat \<Rightarrow> py list \<Rightarrow> bool" where
  "response_shape n m rows =
     (length rows = n
      \<and> list_all (\<lambda>row. case elements_of row of Inr es \<Rightarrow> length es = m | Inl e \<Rightarrow> False) rows)"


text \<open>A provider that answers every request with the status \<open>REQUEST_DENIED\<close>.\<close>

definition denied_tools :: tools where
  "denied_tools =
     \<lparr>client = (\<lambda>req. Inr (PDict [(''status'', PStr ''REQUEST_DENIED'')])),
      default_language = ''zh-TW''\<rparr>"

section \<open>Auxiliary facts\<close>

lemmas io_defs = call_def lift_def bindIO_def except_raise_def bindE_def not_initialized_def

lemmas example_defs = example_tools_def example_client_def example_lib_def example_float_def
  empty_tools_def empty_client_def failing_tools_def example_places_def example_matrix_def
  example_route_def example_leg_def



lemma floats_of_InrD:
  "floats_of L ts = Inr xs \<Longrightarrow> map (\<lambda>t. float_str L (strip t)) ts = map Some xs"
  by (induction ts arbitrary: xs) (auto simp: bindE_def split: option.splits sum.splits)

lemma floats_of_Inl: "floats_of L ts = Inl e \<Longrightarrow> exn_class_of e = ValueError"
  by (induction ts arbitrary: e) (auto simp: bindE_def split: option.splits sum.splits)

lemma search_nearby_places_no_location:
  "subscript (location params) ''lat'' = Inl e \<or> subscript (location params) ''lng'' = Inl e
   \<Longrightarrow> snd (search_nearby_places self params) = []"
  by (auto simp: search_nearby_places_def io_defs split: sum.splits)

lemma search_nearby_places_request:
  assumes "subscript (location params) ''lat'' = Inr lat"
    and "subscript (location params) ''lng'' = Inr lng"
  shows "search_nearby_places self params =
     except_raise ValueError ''Error searching nearby places: ''
       (bindIO (call self (PlacesNearby (search_params self params lat lng))) (\<lambda>result.
          lift (bindE (dict_get result ''results'' (PList []))
                  (filter_places (minRating params)))))"
  using assms by (simp add: search_nearby_places_def io_defs split: sum.splits prod.splits)

lemma filter_places_empty: "filter_places mr (PList []) = Inr (PList [])"
  by (simp add: filter_places_def bindE_def split: option.splits)

lemma dict_items_Cons:
  "dict_items ((k, r) # kvs) =
     bindE r (\<lambda>v. bindE (dict_items kvs) (\<lambda>rest. Inr ((k, v) # rest)))"
  by (cases r) (simp_all add: bindE_def)

lemma value_text_is_pair: "value_text e k = Inr d \<Longrightarrow> is_value_text d"
  by (auto simp: value_text_def dict_lit_def dict_items_Cons subscript2_def bindE_def
        split: sum.splits)

section \<open>Properties of the resolver\<close>

text \<open>
  C2. Resolving a coordinate descriptor (\<open>isCoordinates\<close> true, \<open>value\<close> a string): when the
  split of the string on commas gives exactly two tokens and both, stripped of whitespace,
  parse as numbers, the result is the coordinate with exactly those two values as \<open>lat\<close>
  and \<open>lng\<close>, with no range check and no provider request; in every other case (another
  number of tokens, or a token that does not parse) the result is the \<open>ValueError\<close> of the
  invalid coordinate format.
\<close>

theorem resolve_coordinates:
  assumes "map_of center ''isCoordinates'' = Some flag" and "truthy flag"
    and "map_of center ''value'' = Some (PStr s)"
  shows "(\<forall>a b x y. split_on (CHR '','') s = [a, b] \<and> float_str L (strip a) = Some x
             \<and> float_str L (strip b) = Some y \<longrightarrow>
            get_location L self (PDict center)
              = (Inr (PDict [(''lat'', PFloat x), (''lng'', PFloat y)]), []))
       \<and> ((\<nexists>a b x y. split_on (CHR '','') s = [a, b] \<and> float_str L (strip a) = Some x
             \<and> float_str L (strip b) = Some y) \<longrightarrow>
            get_location L self (PDict center)
              = (Inl (Exn ValueError (''Invalid coorindate format, please use ''
                    @ quoted ''latitude, longitude'' @ '' format'')), []))"
proof (intro conjI allI impI)
  fix a b x y
  assume h: "split_on (CHR '','') s = [a, b] \<and> float_str L (strip a) = Some x
             \<and> float_str L (strip b) = Some y"
  then have "floats_of L (split_on (CHR '','') s) = Inr [x, y]"
    by (simp add: bindE_def)
  then show "get_location L self (PDict center)
              = (Inr (PDict [(''lat'', PFloat x), (''lng'', PFloat y)]), [])"
    using assms by (simp add: get_location_def parse_coordinates_def io_defs)
next
  assume n: "\<nexists>a b x y. split_on (CHR '','') s = [a, b] \<and> float_str L (strip a) = Some x
             \<and> float_str L (strip b) = Some y"
  show "get_location L self (PDict center)
              = (Inl (Exn ValueError (''Invalid coorindate format, please use ''
                    @ quoted ''latitude, longitude'' @ '' format'')), [])"
  proof (cases "floats_of L (split_on (CHR '','') s)")
    case (Inl e)
    then have "exn_class_of e = ValueError" by (rule floats_of_Inl)
    then obtain m where "e = Exn ValueError m" by (cases e) simp
    with Inl show ?thesis
      using assms by (simp add: get_location_def parse_coordinates_def io_defs)
  next
    case (Inr xs)
    then have m: "map (\<lambda>t. float_str L (strip t)) (split_on (CHR '','') s) = map Some xs"
      by (rule floats_of_InrD)
    have "\<not> (\<exists>x y. xs = [x, y])"
    proof
      assume "\<exists>x y. xs = [x, y]"
      then obtain x y where xs: "xs = [x, y]" by blast
      with m obtain a b where "split_on (CHR '','') s = [a, b]"
        "float_str L (strip a) = Some x" "float_str L (strip b) = Some y"
        by (auto simp: map_eq_Cons_conv)
      with n show False by blast
    qed
    then have "(case xs of
                  [lat, lng] \<Rightarrow> Inr (PDict [(''lat'', PFloat lat), (''lng'', PFloat lng)])
                | _ \<Rightarrow> Inl (Exn ValueError ''Invalid coordinate format''))
               = (Inl (Exn ValueError ''Invalid coordinate format'') :: exn + py)"
      by (auto split: list.splits)
    with Inr show ?thesis
      using assms by (simp add: get_location_def parse_coordinates_def io_defs)
  qed
qed

text \<open>A latitude of 999 is accepted; three tokens are refused.\<close>

theorem resolve_coordinates_witness:
  "get_location example_lib example_tools
     (PDict [(''value'', PStr '' 999, 4.75 ''), (''isCoordinates'', PBool True)])
     = (Inr (PDict [(''lat'', PFloat 999), (''lng'', PFloat (19 / 4))]), [])
   \<and> get_location example_lib example_tools
     (PDict [(''value'', PStr ''52.5,4.75,0''), (''isCoordinates'', PInt 1)])
     = (Inl (Exn ValueError (''Invalid coorindate format, please use ''
                    @ quoted ''latitude, longitude'' @ '' format'')), [])"
proof
  have a: "map_of [(''value'', PStr '' 999, 4.75 ''), (''isCoordinates'', PBool True)] ''isCoordinates''
             = Some (PBool True)" by simp
  have b: "truthy (PBool True)" by simp
  have c: "map_of [(''value'', PStr '' 999, 4.75 ''), (''isCoordinates'', PBool True)] ''value''
             = Some (PStr '' 999, 4.75 '')" by simp
  have d: "split_on (CHR '','') '' 999, 4.75 '' = ['' 999'', '' 4.75 ''] \<and>
           float_str example_lib (strip '' 999'') = Some 999 \<and>
           float_str example_lib (strip '' 4.75 '') = Some (19 / 4)"
    by (simp add: strip_def is_space_def example_lib_def example_float_def)
  from resolve_coordinates [OF a b c, of example_lib example_tools] d
  show "get_location example_lib example_tools
     (PDict [(''value'', PStr '' 999, 4.75 ''), (''isCoordinates'', PBool True)])
     = (Inr (PDict [(''lat'', PFloat 999), (''lng'', PFloat (19 / 4))]), [])"
    by blast
next
  have a: "map_of [(''value'', PStr ''52.5,4.75,0''), (''isCoordinates'', PInt 1)] ''isCoordinates''
             = Some (PInt 1)" by simp
  have b: "truthy (PInt 1)" by simp
  have c: "map_of [(''value'', PStr ''52.5,4.75,0''), (''isCoordinates'', PInt 1)] ''value''
             = Some (PStr ''52.5,4.75,0'')" by simp
  have d: "\<nexists>a b x y. split_on (CHR '','') ''52.5,4.75,0'' = [a, b] \<and>
           float_str example_lib (strip a) = Some x \<and>
           float_str example_lib (strip b) = Some y"
    by simp
  from resolve_coordinates [OF a b c, of example_lib example_tools] d
  show "get_location example_lib example_tools
     (PDict [(''value'', PStr ''52.5,4.75,0''), (''isCoordinates'', PInt 1)])
     = (Inl (Exn ValueError (''Invalid coorindate format, please use ''
                    @ quoted ''latitude, longitude'' @ '' format'')), [])"
    by blast
qed

section \<open>Properties of the provider adapter\<close>

text \<open>
  C1, as the code has it. When both a departure time and an arrival time are given, the
  directions operation issues one provider request, whose parameters hold the arrival
  time under \<open>arrival_time\<close> and have no \<open>departure_time\<close>: they are the parameters of the
  same call without a departure time. The arrival time wins.
\<close>

theorem directions_arrival_time_wins:
  "snd (get_directions L self origin destination mode (Some dep) (Some arr)) =
      [Directions (directions_params self origin destination mode (Some dep) (Some arr))]
   \<and> directions_params self origin destination mode (Some dep) (Some arr)
        = directions_params self origin destination mode None (Some arr)
   \<and> map_of (directions_params self origin destination mode (Some dep) (Some arr))
        ''arrival_time'' = Some (PDateTime arr)
   \<and> map_of (directions_params self origin destination mode (Some dep) (Some arr))
        ''departure_time'' = None"
  by (simp add: get_directions_def directions_params_def io_defs split: sum.splits prod.splits)

text \<open>
  C1 as stated fails: with departure 08:00 and arrival 09:00 both given, the request
  carries the arrival time and no departure time.
\<close>

theorem directions_departure_time_counterexample:
  "snd (get_directions example_lib example_tools ''Eindhoven'' ''Geldrop'' ''driving''
          (Some (DateTime 2026 1 5 8 0 0)) (Some (DateTime 2026 1 5 9 0 0)))
     = [Directions
          [(''origin'', PStr ''Eindhoven''), (''destination'', PStr ''Geldrop''),
           (''mode'', PStr ''driving''), (''language'', PStr ''zh-TW''),
           (''arrival_time'', PDateTime (DateTime 2026 1 5 9 0 0))]]"
  by (simp add: get_directions_def directions_params_def io_defs example_defs
        split: sum.splits prod.splits)

text \<open>
  C4. When the provider returns an empty list, geocode and reverse_geocode fail, with
  the message of the missing address, after their one request; when the provider's
  nearby-search response has an empty result list (or none), search_nearby_places
  succeeds with the empty list.
\<close>

theorem empty_results:
  "(client self (Geocode (PStr address) (default_language self)) = Inr (PList []) \<longrightarrow>
      geocode self address =
        (Inl (Exn ValueError ''Error geocoding: Error geocoding address: Address not found''),
         [Geocode (PStr address) (default_language self)]))
   \<and> (client self (ReverseGeocode (PTuple [PFloat latitude, PFloat longitude])
                      (default_language self)) = Inr (PList []) \<longrightarrow>
      reverse_geocode self latitude longitude =
        (Inl (Exn ValueError ''Error reverse geocoding: No address found for coordinates''),
         [ReverseGeocode (PTuple [PFloat latitude, PFloat longitude]) (default_language self)]))
   \<and> (\<forall>req d. snd (search_nearby_places self params) = [req] \<and> client self req = Inr (PDict d)
         \<and> (map_of d ''results'' = None \<or> map_of d ''results'' = Some (PList [])) \<longrightarrow>
      fst (search_nearby_places self params) = Inr (PList []))"
proof (intro conjI impI allI)
  assume "client self (Geocode (PStr address) (default_language self)) = Inr (PList [])"
  then show "geocode self address =
        (Inl (Exn ValueError ''Error geocoding: Error geocoding address: Address not found''),
         [Geocode (PStr address) (default_language self)])"
    by (simp add: geocode_def geocode_address_def io_defs)
next
  assume "client self (ReverseGeocode (PTuple [PFloat latitude, PFloat longitude])
                         (default_language self)) = Inr (PList [])"
  then show "reverse_geocode self latitude longitude =
        (Inl (Exn ValueError ''Error reverse geocoding: No address found for coordinates''),
         [ReverseGeocode (PTuple [PFloat latitude, PFloat longitude]) (default_language self)])"
    by (simp add: reverse_geocode_def io_defs)
next
  fix req d
  assume h: "snd (search_nearby_places self params) = [req] \<and> client self req = Inr (PDict d)
         \<and> (map_of d ''results'' = None \<or> map_of d ''results'' = Some (PList []))"
  obtain lat where lat: "subscript (location params) ''lat'' = Inr lat"
    using h search_nearby_places_no_location [of params _ self]
    by (cases "subscript (location params) ''lat''") auto
  obtain lng where lng: "subscript (location params) ''lng'' = Inr lng"
    using h search_nearby_places_no_location [of params _ self]
    by (cases "subscript (location params) ''lng''") auto
  note eq = search_nearby_places_request [OF lat lng, of self]
  have req: "req = PlacesNearby (search_params self params lat lng)"
    using h by (simp add: eq io_defs split: sum.splits prod.splits)
  have "dict_get (PDict d) ''results'' (PList []) = Inr (PList [])"
    using h by auto
  then show "fst (search_nearby_places self params) = Inr (PList [])"
    using h req
    by (simp add: eq call_def lift_def bindIO_def except_raise_def filter_places_empty bindE_def)
qed

theorem empty_results_witness:
  "geocode empty_tools ''Nowhere'' =
     (Inl (Exn ValueError ''Error geocoding: Error geocoding address: Address not found''),
      [Geocode (PStr ''Nowhere'') ''zh-TW''])
   \<and> reverse_geocode empty_tools 0 0 =
     (Inl (Exn ValueError ''Error reverse geocoding: No address found for coordinates''),
      [ReverseGeocode (PTuple [PFloat 0, PFloat 0]) ''zh-TW''])
   \<and> fst (search_nearby_places empty_tools
        \<lparr>location = PDict [(''lat'', PFloat 51), (''lng'', PFloat 5)], keyword = Some ''pizza'',
         radius = Some 1000, openNow = False, minRating = Some 4\<rparr>) = Inr (PList [])"
proof -
  let ?p = "\<lparr>location = PDict [(''lat'', PFloat 51), (''lng'', PFloat 5)],
             keyword = Some ''pizza'', radius = Some 1000, openNow = False,
             minRating = Some 4\<rparr>"
  let ?req = "PlacesNearby [(''location'', PTuple [PFloat 51, PFloat 5]),
               (''radius'', PInt 1000), (''language'', PStr ''zh-TW''),
               (''keyword'', PStr ''pizza'')]"
  have g: "client empty_tools (Geocode (PStr ''Nowhere'') (default_language empty_tools))
             = Inr (PList [])"
    by (simp add: empty_tools_def empty_client_def)
  have r: "client empty_tools (ReverseGeocode (PTuple [PFloat 0, PFloat 0])
             (default_language empty_tools)) = Inr (PList [])"
    by (simp add: empty_tools_def empty_client_def)
  have n: "snd (search_nearby_places empty_tools ?p) = [?req]
           \<and> client empty_tools ?req = Inr (PDict [(''results'', PList [])])
           \<and> (map_of [(''results'', PList [])] ''results'' = None
              \<or> map_of [(''results'', PList [])] ''results'' = Some (PList []))"
    by (simp add: search_nearby_places_def search_params_def filter_places_def io_defs
          empty_tools_def empty_client_def)
  have l: "default_language empty_tools = ''zh-TW''"
    by (simp add: empty_tools_def)
  from empty_results [of empty_tools "''Nowhere''" 0 0 ?p] g r n l
  show ?thesis by (metis (no_types, lifting))
qed

text \<open>
  C10. When the provider's place-detail response is a dictionary without \<open>result\<close>, the
  place-detail operation succeeds with the empty dictionary, and the tool built on it
  succeeds with a detail object in which every field read from the provider is \<open>None\<close> or
  an empty list; \<open>place_id\<close> repeats the argument.
\<close>

theorem place_details_without_result:
  assumes "client self (Place placeId place_fields (default_language self)) = Inr (PDict d)"
    and "map_of d ''result'' = None"
  shows "get_place_details self placeId
           = (Inr (PDict []), [Place placeId place_fields (default_language self)])
       \<and> server_get_place_details (Some self) placeId
           = (Inr (PDict
                [(''name'', PNone), (''place_id'', PStr placeId), (''address'', PNone),
                 (''location'', PNone), (''rating'', PNone), (''total_ratings'', PNone),
                 (''open_now'', PNone), (''opening_hours'', PList []), (''phone'', PNone),
                 (''international_phone'', PNone), (''website'', PNone), (''url'', PNone),
                 (''price_level'', PNone), (''types'', PList []), (''photos'', PList []),
                 (''reviews'', PList [])]),
              [Place placeId place_fields (default_language self)])"
  using assms
  by (simp add: get_place_details_def server_get_place_details_def format_details_def
        format_each_def dict_lit_def dict_get2_def io_defs)

theorem place_details_without_result_witness:
  "get_place_details example_tools ''p404''
     = (Inr (PDict []), [Place ''p404'' place_fields ''zh-TW''])
   \<and> fst (server_get_place_details (Some example_tools) ''p404'')
     = Inr (PDict
          [(''name'', PNone), (''place_id'', PStr ''p404''), (''address'', PNone),
           (''location'', PNone), (''rating'', PNone), (''total_ratings'', PNone),
           (''open_now'', PNone), (''opening_hours'', PList []), (''phone'', PNone),
           (''international_phone'', PNone), (''website'', PNone), (''url'', PNone),
           (''price_level'', PNone), (''types'', PList []), (''photos'', PList []),
           (''reviews'', PList [])])"
proof -
  have a: "client example_tools (Place ''p404'' place_fields (default_language example_tools))
             = Inr (PDict [(''status'', PStr ''NOT_FOUND'')])"
    by (simp add: example_tools_def example_client_def)
  have b: "map_of [(''status'', PStr ''NOT_FOUND'')] ''result'' = None"
    by simp
  have l: "default_language example_tools = ''zh-TW''"
    by (simp add: example_tools_def)
  from place_details_without_result [OF a b] l show ?thesis by simp
qed

section \<open>Properties of the tool gateway\<close>



text \<open>
  C8. With the adapter handle still \<open>None\<close>, every tool raises the \<open>RuntimeError\<close> of the
  missing initialisation, whatever its arguments, and no provider request is issued.
\<close>

theorem tools_not_initialized:
  "search_nearby L None center kw rad open_now min_rating
     = (Inl (Exn RuntimeError ''Google Map Tools not initialized''), [])
   \<and> server_get_place_details None placeId
     = (Inl (Exn RuntimeError ''Google Maps tools not initialized''), [])
   \<and> maps_geocode None address
     = (Inl (Exn RuntimeError ''Google Maps tools not initialized''), [])
   \<and> maps_reverse_geocode None latitude longitude
     = (Inl (Exn RuntimeError ''Google Maps tools not initialized''), [])
   \<and> maps_distance_matrix L None origins destinations mode
     = (Inl (Exn RuntimeError ''Google Maps tools not initialized''), [])
   \<and> maps_directions L None origin destination mode departure_time arrival_time
     = (Inl (Exn RuntimeError ''Google Maps tools not initialized''), [])
   \<and> maps_elevation None locations
     = (Inl (Exn RuntimeError ''Google Maps tools not initialized''), [])"
  by (simp add: search_nearby_def server_get_place_details_def maps_geocode_def
        maps_reverse_geocode_def maps_distance_matrix_def maps_directions_def
        maps_elevation_def not_initialized_def lift_def)

section \<open>The rating filter of the nearby search\<close>

lemma filter_rating_Inr:
  "filter_rating m ps = Inr kept \<Longrightarrow> kept = filter (meets_rating m) ps"
  by (induction ps arbitrary: kept)
     (auto simp: bindE_def meets_rating_def split: sum.splits if_splits)

lemma search_nearby_places_success:
  assumes "search_nearby_places self params = (Inr out, reqs)"
  shows "\<exists>lat lng result places.
           reqs = [PlacesNearby (search_params self params lat lng)]
         \<and> client self (PlacesNearby (search_params self params lat lng)) = Inr result
         \<and> dict_get result ''results'' (PList []) = Inr places
         \<and> filter_places (minRating params) places = Inr out"
  using assms
  by (auto simp: search_nearby_places_def io_defs split: sum.splits prod.splits)

text \<open>
  What a successful search_nearby_places returns. It has issued one request, and its
  result comes from the \<open>results\<close> of the provider's response: for a \<open>minRating\<close> other than
  0, the list of exactly those places whose rating, counted as 0 when the field is missing,
  is not below \<open>minRating\<close>, so that a place without a rating is kept only when \<open>minRating\<close>
  is at most 0; and the \<open>results\<close> as they are when the guard of the filter is false, which
  it is for no \<open>minRating\<close> and for a \<open>minRating\<close> of 0.
\<close>

lemma nearby_min_rating_filter:
  assumes "search_nearby_places self params = (Inr out, reqs)"
  shows "\<exists>sp result places.
           reqs = [PlacesNearby sp]
         \<and> client self (PlacesNearby sp) = Inr result
         \<and> dict_get result ''results'' (PList []) = Inr places
         \<and> (case minRating params of
              None \<Rightarrow> out = places
            | Some m \<Rightarrow>
                if m = 0 then out = places
                else (\<exists>ps kept. iter_py places = Inr ps
                        \<and> kept = filter (meets_rating m) ps
                        \<and> out = PList kept
                        \<and> (\<forall>p\<in>set kept. meets_rating m p)
                        \<and> (\<forall>d. PDict d \<in> set kept \<and> map_of d ''rating'' = None \<longrightarrow> m \<le> 0)))"
proof -
  from search_nearby_places_success [OF assms]
  obtain lat lng result places where
    a: "reqs = [PlacesNearby (search_params self params lat lng)]"
    and b: "client self (PlacesNearby (search_params self params lat lng)) = Inr result"
    and c: "dict_get result ''results'' (PList []) = Inr places"
    and d: "filter_places (minRating params) places = Inr out"
    by blast
  have "case minRating params of
              None \<Rightarrow> out = places
            | Some m \<Rightarrow>
                if m = 0 then out = places
                else (\<exists>ps kept. iter_py places = Inr ps
                        \<and> kept = filter (meets_rating m) ps
                        \<and> out = PList kept
                        \<and> (\<forall>p\<in>set kept. meets_rating m p)
                        \<and> (\<forall>d. PDict d \<in> set kept \<and> map_of d ''rating'' = None \<longrightarrow> m \<le> 0))"
  proof (cases "minRating params")
    case None
    with d show ?thesis by (simp add: filter_places_def)
  next
    case (Some m)
    show ?thesis
    proof (cases "m = 0")
      case True
      with d Some show ?thesis by (simp add: filter_places_def)
    next
      case False
      with d Some obtain ps kept where ps: "iter_py places = Inr ps"
        and k: "filter_rating m ps = Inr kept" and o: "out = PList kept"
        by (auto simp: filter_places_def bindE_def split: sum.splits)
      have kf: "kept = filter (meets_rating m) ps" using k by (rule filter_rating_Inr)
      have miss: "\<forall>d. PDict d \<in> set kept \<and> map_of d ''rating'' = None \<longrightarrow> m \<le> 0"
        using kf by (auto simp: meets_rating_def bindE_def)
      from Some False ps kf o miss show ?thesis by auto
    qed
  qed
  with a b c show ?thesis by blast
qed


text \<open>The filter at a \<open>minRating\<close> of 4.5 on a response with mixed ratings.\<close>

lemma nearby_min_rating_filter_example:
  "fst (search_nearby_places example_tools
          \<lparr>location = PDict [(''lat'', PFloat 51), (''lng'', PFloat 5)], keyword = None,
           radius = Some 1000, openNow = False, minRating = Some (9 / 2)\<rparr>)
     = Inr (PList [PDict [(''name'', PStr ''Cafe A''), (''rating'', PFloat (47 / 10))]])
   \<and> meets_rating (9 / 2) (PDict [(''name'', PStr ''Cafe A''), (''rating'', PFloat (47 / 10))])"
proof -
  let ?p = "\<lparr>location = PDict [(''lat'', PFloat 51), (''lng'', PFloat 5)], keyword = None,
           radius = Some 1000, openNow = False, minRating = Some (9 / 2)\<rparr>"
  let ?a = "PDict [(''name'', PStr ''Cafe A''), (''rating'', PFloat (47 / 10))]"
  have e: "search_nearby_places example_tools ?p
     = (Inr (PList [?a]),
        [PlacesNearby [(''location'', PTuple [PFloat 51, PFloat 5]), (''radius'', PInt 1000),
                       (''language'', PStr ''zh-TW'')]])"
    by (simp add: search_nearby_places_def search_params_def filter_places_def io_defs
          example_defs)
  from nearby_min_rating_filter [OF e]
  obtain ps where "[?a] = filter (meets_rating (9 / 2)) ps"
    by auto
  then have "?a \<in> set (filter (meets_rating (9 / 2)) ps)"
    by (metis list.set_intros(1))
  then have "meets_rating (9 / 2) ?a" by simp
  with e show ?thesis by simp
qed

section \<open>The arrays of the distance matrix\<close>

lemma matrix_row_cells:
  "matrix_row elements = Inr (drow, urow) \<Longrightarrow>
     list_all2 (\<lambda>element (dc, uc). cell_matches element dc uc) elements (zip drow urow)
     \<and> length drow = length elements \<and> length urow = length elements"
proof (induction elements arbitrary: drow urow)
  case Nil
  then show ?case by simp
next
  case (Cons element elements)
  from Cons.prems obtain status d u drow' urow' where
    st: "subscript element ''status'' = Inr status"
    and cell: "(if eq_str status ''OK''
            then bindE (value_text element ''distance'') (\<lambda>distance.
                 bindE (value_text element ''duration'') (\<lambda>duration.
                   Inr (distance, duration)))
            else Inr (PNone, PNone)) = Inr (d, u)"
    and rest: "matrix_row elements = Inr (drow', urow')"
    and out: "drow = d # drow'" "urow = u # urow'"
    by (auto simp: bindE_def split: sum.splits prod.splits)
  have "cell_matches element d u"
    using st cell
    by (auto simp: cell_matches_def bindE_def value_text_is_pair split: sum.splits if_splits)
  with Cons.IH [OF rest] out show ?case by simp
qed

lemma matrix_rows_match:
  "matrix_rows rows = Inr (ds, us) \<Longrightarrow> matrix_matches rows ds us"
proof (induction rows arbitrary: ds us)
  case Nil
  then show ?case by (simp add: matrix_matches_def)
next
  case (Cons row rows)
  from Cons.prems obtain elements drow urow ds' us' where
    el: "elements_of row = Inr elements"
    and r: "matrix_row elements = Inr (drow, urow)"
    and rest: "matrix_rows rows = Inr (ds', us')"
    and out: "ds = PList drow # ds'" "us = PList urow # us'"
    by (auto simp: bindE_def elements_of_def split: sum.splits prod.splits)
  have "row_matches row (PList drow) (PList urow)"
    using el matrix_row_cells [OF r] by (simp add: row_matches_def)
  with Cons.IH [OF rest] out show ?case by (simp add: matrix_matches_def)
qed

lemma matrix_rows_shape:
  "matrix_rows rows = Inr (ds, us) \<Longrightarrow> response_shape n m rows \<Longrightarrow>
     has_shape n m ds \<and> has_shape n m us"
proof (induction rows arbitrary: ds us n)
  case Nil
  then show ?case by (simp add: has_shape_def response_shape_def)
next
  case (Cons row rows)
  from Cons.prems(1) obtain elements drow urow ds' us' where
    el: "elements_of row = Inr elements"
    and r: "matrix_row elements = Inr (drow, urow)"
    and rest: "matrix_rows rows = Inr (ds', us')"
    and out: "ds = PList drow # ds'" "us = PList urow # us'"
    by (auto simp: bindE_def elements_of_def split: sum.splits prod.splits)
  from Cons.prems(2) el have m: "length elements = m"
    and sh: "response_shape (length rows) m rows" and n: "n = Suc (length rows)"
    by (auto simp: response_shape_def)
  from Cons.IH [OF rest sh] matrix_row_cells [OF r] m n out
  show ?case by (simp add: has_shape_def)
qed

text \<open>
  C6, as the code has it. When calculate_distance_matrix succeeds, its \<open>distances\<close> and
  \<open>durations\<close> arrays follow the rows of the provider's response: one row for each response
  row and one cell for each element of that row, in order, whatever the number of failed
  elements; a cell is a \<open>{value, text}\<close> pair when the element's status is \<open>OK\<close> and \<open>None\<close> in
  both arrays otherwise. So the arrays have \<open>len(origins)\<close> rows of \<open>len(destinations)\<close> cells
  whenever the response has one row for each origin with one element for each destination.
  A top-level status other than \<open>OK\<close> fails the whole call.
\<close>

theorem distance_matrix_shape:
  "(\<forall>out reqs. calculate_distance_matrix L self origins destinations mode = (Inr out, reqs) \<longrightarrow>
      (\<exists>result rows distances durations.
          client self (DistanceMatrix origins destinations mode (default_language self))
            = Inr result
        \<and> bindE (subscript result ''rows'') iter_py = Inr rows
        \<and> subscript out ''distances'' = Inr (PList distances)
        \<and> subscript out ''durations'' = Inr (PList durations)
        \<and> matrix_matches rows distances durations
        \<and> (response_shape (length origins) (length destinations) rows \<longrightarrow>
             has_shape (length origins) (length destinations) distances
           \<and> has_shape (length origins) (length destinations) durations)))
   \<and> (\<forall>result status.
        client self (DistanceMatrix origins destinations mode (default_language self))
          = Inr result
        \<and> subscript result ''status'' = Inr status \<and> \<not> eq_str status ''OK'' \<longrightarrow>
        calculate_distance_matrix L self origins destinations mode
          = (Inl (Exn ValueError
                (''Error calculating distance matrix: Distance matrix calculation failed: ''
                   @ format_py L status)),
             [DistanceMatrix origins destinations mode (default_language self)]))"
proof (intro conjI allI impI)
  fix out reqs
  assume ok: "calculate_distance_matrix L self origins destinations mode = (Inr out, reqs)"
  let ?req = "DistanceMatrix origins destinations mode (default_language self)"
  from ok obtain result where res: "client self ?req = Inr result"
    by (cases "client self ?req") (auto simp: calculate_distance_matrix_def io_defs)
  from ok res obtain rows distances durations oa da where
    rows: "bindE (subscript result ''rows'') iter_py = Inr rows"
    and m: "matrix_rows rows = Inr (distances, durations)"
    and out: "out = PDict [(''distances'', PList distances), (''durations'', PList durations),
                (''origin_addresses'', oa), (''destination_addresses'', da)]"
    by (auto simp: calculate_distance_matrix_def io_defs dict_lit_def dict_items_Cons
          split: sum.splits if_splits prod.splits)
  have "subscript out ''distances'' = Inr (PList distances)"
    and "subscript out ''durations'' = Inr (PList durations)"
    using out by simp_all
  with res rows matrix_rows_match [OF m] matrix_rows_shape [OF m]
  show "\<exists>result rows distances durations.
          client self ?req = Inr result
        \<and> bindE (subscript result ''rows'') iter_py = Inr rows
        \<and> subscript out ''distances'' = Inr (PList distances)
        \<and> subscript out ''durations'' = Inr (PList durations)
        \<and> matrix_matches rows distances durations
        \<and> (response_shape (length origins) (length destinations) rows \<longrightarrow>
             has_shape (length origins) (length destinations) distances
           \<and> has_shape (length origins) (length destinations) durations)"
    by blast
next
  fix result status
  assume "client self (DistanceMatrix origins destinations mode (default_language self))
          = Inr result
        \<and> subscript result ''status'' = Inr status \<and> \<not> eq_str status ''OK''"
  then show "calculate_distance_matrix L self origins destinations mode
          = (Inl (Exn ValueError
                (''Error calculating distance matrix: Distance matrix calculation failed: ''
                   @ format_py L status)),
             [DistanceMatrix origins destinations mode (default_language self)])"
    by (simp add: calculate_distance_matrix_def io_defs)
qed


text \<open>
  C6 as stated fails: the dimensions are those of the response, not of the request. For
  one origin and one destination and a response with status \<open>OK\<close> and no rows, the call
  succeeds with empty arrays.
\<close>

theorem distance_matrix_shape_counterexample:
  "calculate_distance_matrix example_lib empty_tools [''Eindhoven''] [''Geldrop''] ''driving''
     = (Inr (PDict [(''distances'', PList []), (''durations'', PList []),
                    (''origin_addresses'', PList []), (''destination_addresses'', PList [])]),
        [DistanceMatrix [''Eindhoven''] [''Geldrop''] ''driving'' ''zh-TW''])
   \<and> \<not> has_shape (length [''Eindhoven'']) (length [''Geldrop'']) []"
  by (simp add: calculate_distance_matrix_def io_defs dict_lit_def dict_items_Cons
        empty_tools_def empty_client_def has_shape_def)

theorem distance_matrix_shape_witness:
  "calculate_distance_matrix example_lib example_tools [''Eindhoven''] [''Geldrop'', ''Atlantis'']
       ''driving''
     = (Inr (PDict
          [(''distances'',
              PList [PList [PDict [(''value'', PInt 1200), (''text'', PStr ''1.2 km'')], PNone]]),
           (''durations'',
              PList [PList [PDict [(''value'', PInt 300), (''text'', PStr ''5 mins'')], PNone]]),
           (''origin_addresses'', PList [PStr ''Eindhoven'']),
           (''destination_addresses'', PList [PStr ''Geldrop'', PStr ''Atlantis''])]),
        [DistanceMatrix [''Eindhoven''] [''Geldrop'', ''Atlantis''] ''driving'' ''zh-TW''])
   \<and> has_shape 1 2
        [PList [PDict [(''value'', PInt 1200), (''text'', PStr ''1.2 km'')], PNone]]
   \<and> has_shape 1 2
        [PList [PDict [(''value'', PInt 300), (''text'', PStr ''5 mins'')], PNone]]
   \<and> calculate_distance_matrix example_lib denied_tools [''Eindhoven''] [''Geldrop''] ''driving''
     = (Inl (Exn ValueError
          ''Error calculating distance matrix: Distance matrix calculation failed: REQUEST_DENIED''),
        [DistanceMatrix [''Eindhoven''] [''Geldrop''] ''driving'' ''zh-TW''])"
proof -
  let ?os = "[''Eindhoven'']" and ?ds = "[''Geldrop'', ''Atlantis'']"
  let ?d = "[PList [PDict [(''value'', PInt 1200), (''text'', PStr ''1.2 km'')], PNone]]"
  let ?u = "[PList [PDict [(''value'', PInt 300), (''text'', PStr ''5 mins'')], PNone]]"
  let ?out = "PDict [(''distances'', PList ?d), (''durations'', PList ?u),
           (''origin_addresses'', PList [PStr ''Eindhoven'']),
           (''destination_addresses'', PList [PStr ''Geldrop'', PStr ''Atlantis''])]"
  have e: "calculate_distance_matrix example_lib example_tools ?os ?ds ''driving''
             = (Inr ?out, [DistanceMatrix ?os ?ds ''driving'' ''zh-TW''])"
    by (simp add: calculate_distance_matrix_def io_defs dict_lit_def dict_items_Cons
          value_text_def subscript2_def example_defs)
  have c: "client example_tools (DistanceMatrix ?os ?ds ''driving'' (default_language example_tools))
             = Inr example_matrix"
    by (simp add: example_tools_def example_client_def)
  note t = distance_matrix_shape [of example_lib example_tools ?os ?ds "''driving''"]
  from t e obtain result rows distances durations where
    r: "client example_tools (DistanceMatrix ?os ?ds ''driving'' (default_language example_tools))
          = Inr result"
    and rows: "bindE (subscript result ''rows'') iter_py = Inr rows"
    and d: "subscript ?out ''distances'' = Inr (PList distances)"
    and u: "subscript ?out ''durations'' = Inr (PList durations)"
    and sh: "response_shape (length ?os) (length ?ds) rows \<longrightarrow>
               has_shape (length ?os) (length ?ds) distances
             \<and> has_shape (length ?os) (length ?ds) durations"
    by blast
  from r c have "result = example_matrix" by simp
  with rows have "response_shape (length ?os) (length ?ds) rows"
    by (auto simp: example_matrix_def bindE_def response_shape_def elements_of_def)
  with sh d u have s: "has_shape 1 2 ?d \<and> has_shape 1 2 ?u"
    by (auto simp: numeral_2_eq_2)
  let ?os1 = "[''Eindhoven'']" and ?ds1 = "[''Geldrop'']"
  have dc: "client denied_tools (DistanceMatrix ?os1 ?ds1 ''driving'' (default_language denied_tools))
              = Inr (PDict [(''status'', PStr ''REQUEST_DENIED'')])
            \<and> subscript (PDict [(''status'', PStr ''REQUEST_DENIED'')]) ''status''
                = Inr (PStr ''REQUEST_DENIED'')
            \<and> \<not> eq_str (PStr ''REQUEST_DENIED'') ''OK''"
    by (simp add: denied_tools_def)
  from distance_matrix_shape [of example_lib denied_tools ?os1 ?ds1 "''driving''"] dc
  have "calculate_distance_matrix example_lib denied_tools ?os1 ?ds1 ''driving''
          = (Inl (Exn ValueError
                (''Error calculating distance matrix: Distance matrix calculation failed: ''
                   @ format_py example_lib (PStr ''REQUEST_DENIED''))),
             [DistanceMatrix ?os1 ?ds1 ''driving'' (default_language denied_tools)])"
    by blast
  then have f: "calculate_distance_matrix example_lib denied_tools ?os1 ?ds1 ''driving''
     = (Inl (Exn ValueError
          ''Error calculating distance matrix: Distance matrix calculation failed: REQUEST_DENIED''),
        [DistanceMatrix ?os1 ?ds1 ''driving'' ''zh-TW''])"
    by (simp add: format_py_def denied_tools_def)
  from e s f show ?thesis by simp
qed

section \<open>The result of the directions operation\<close>

text \<open>
  C7. When the provider answers with a list of routes whose first route has legs, and the
  first leg has a distance and a duration with \<open>value\<close> and \<open>text\<close>, get_directions builds its
  result from the first route and its first leg alone: \<open>summary\<close> is the first route's
  (empty when missing), \<open>total_distance\<close> and \<open>total_duration\<close> are the first leg's
  \<open>{value, text}\<close> pairs, and the further routes and legs occur only in the raw \<open>routes\<close>.
  Each of \<open>arrival_time\<close> and \<open>departure_time\<close> is the empty string when the leg has no such
  field (or the field has no \<open>value\<close>), so that the call then succeeds; a field with a
  \<open>value\<close> is converted by \<open>fromtimestamp\<close> and printed with the format
  \<open>%Y-%m-%d %H:%M:%S\<close>.
\<close>

theorem directions_first_route_first_leg:
  assumes r: "client self (Directions
                 (directions_params self origin destination mode departure_time arrival_time))
              = Inr (PList (PDict route # routes))"
    and l: "map_of route ''legs'' = Some (PList (PDict leg # legs))"
    and d: "value_text (PDict leg) ''distance'' = Inr distance"
    and u: "value_text (PDict leg) ''duration'' = Inr duration"
  shows "fst (get_directions L self origin destination mode departure_time arrival_time) =
           (case
              bindE (format_time L
                       (case map_of leg ''arrival_time'' of None \<Rightarrow> PNone | Some v \<Rightarrow> v))
                (\<lambda>arrival.
              bindE (format_time L
                       (case map_of leg ''departure_time'' of None \<Rightarrow> PNone | Some v \<Rightarrow> v))
                (\<lambda>departure.
                Inr (PDict
                  [(''routes'', PList (PDict route # routes)),
                   (''summary'',
                      (case map_of route ''summary'' of None \<Rightarrow> PStr [] | Some v \<Rightarrow> v)),
                   (''total_distance'', distance),
                   (''total_duration'', duration),
                   (''arrival_time'', arrival),
                   (''departure_time'', departure)])))
            of
              Inl e \<Rightarrow> Inl (Exn ValueError (''Error getting directions: '' @ str_exn e))
            | Inr v \<Rightarrow> Inr v)
       \<and> (map_of leg ''arrival_time'' = None \<and> map_of leg ''departure_time'' = None \<longrightarrow>
            fst (get_directions L self origin destination mode departure_time arrival_time) =
              Inr (PDict
               [(''routes'', PList (PDict route # routes)),
                (''summary'', (case map_of route ''summary'' of None \<Rightarrow> PStr [] | Some v \<Rightarrow> v)),
                (''total_distance'', distance),
                (''total_duration'', duration),
                (''arrival_time'', PStr []),
                (''departure_time'', PStr [])]))
       \<and> is_value_text distance \<and> is_value_text duration
       \<and> format_time L PNone = Inr (PStr [])
       \<and> (\<forall>t. map_of t ''value'' = None \<longrightarrow> format_time L (PDict t) = Inr (PStr []))
       \<and> (\<forall>t v dt. map_of t ''value'' = Some v \<and> fromtimestamp L v = Inr dt \<longrightarrow>
            format_time L (PDict t) = Inr (PStr (strftime L ''%Y-%m-%d %H:%M:%S'' dt)))"
proof -
  have none: "format_time L PNone = Inr (PStr [])"
    by (simp add: format_time_def)
  have main: "fst (get_directions L self origin destination mode departure_time arrival_time) =
           (case
              bindE (format_time L
                       (case map_of leg ''arrival_time'' of None \<Rightarrow> PNone | Some v \<Rightarrow> v))
                (\<lambda>arrival.
              bindE (format_time L
                       (case map_of leg ''departure_time'' of None \<Rightarrow> PNone | Some v \<Rightarrow> v))
                (\<lambda>departure.
                Inr (PDict
                  [(''routes'', PList (PDict route # routes)),
                   (''summary'',
                      (case map_of route ''summary'' of None \<Rightarrow> PStr [] | Some v \<Rightarrow> v)),
                   (''total_distance'', distance),
                   (''total_duration'', duration),
                   (''arrival_time'', arrival),
                   (''departure_time'', departure)])))
            of
              Inl e \<Rightarrow> Inl (Exn ValueError (''Error getting directions: '' @ str_exn e))
            | Inr v \<Rightarrow> Inr v)"
    using r l d u
    by (simp add: get_directions_def io_defs dict_lit_def dict_items_Cons split: sum.splits)
  have absent: "\<forall>t. map_of t ''value'' = None \<longrightarrow> format_time L (PDict t) = Inr (PStr [])"
    by (simp add: format_time_def bindE_def)
  have present: "\<forall>t v dt. map_of t ''value'' = Some v \<and> fromtimestamp L v = Inr dt \<longrightarrow>
            format_time L (PDict t) = Inr (PStr (strftime L ''%Y-%m-%d %H:%M:%S'' dt))"
    by (auto simp: format_time_def bindE_def)
  have pairs: "is_value_text distance \<and> is_value_text duration"
    using d u by (simp add: value_text_is_pair)
  from main none absent present pairs show ?thesis
    by (simp add: bindE_def)
qed

theorem directions_first_route_first_leg_witness:
  "fst (get_directions example_lib example_tools ''Eindhoven'' ''Geldrop'' ''driving'' None None)
     = Inr (PDict
         [(''routes'', PList [example_route, PDict [(''summary'', PStr ''N270'')]]),
          (''summary'', PStr ''A2''),
          (''total_distance'', PDict [(''value'', PInt 1200), (''text'', PStr ''1.2 km'')]),
          (''total_duration'', PDict [(''value'', PInt 300), (''text'', PStr ''5 mins'')]),
          (''arrival_time'', PStr ''2026-01-05 09:30:00''),
          (''departure_time'', PStr [])])"
proof -
  let ?leg = "[(''distance'', PDict [(''value'', PInt 1200), (''text'', PStr ''1.2 km'')]),
            (''duration'', PDict [(''value'', PInt 300), (''text'', PStr ''5 mins'')]),
            (''arrival_time'', PDict [(''value'', PInt 1767605400)])]"
  let ?route = "[(''summary'', PStr ''A2''),
            (''legs'', PList [PDict ?leg, PDict [(''distance'', PNone)]])]"
  have r: "client example_tools (Directions
                 (directions_params example_tools ''Eindhoven'' ''Geldrop'' ''driving'' None None))
              = Inr (PList (PDict ?route # [PDict [(''summary'', PStr ''N270'')]]))"
    by (simp add: example_defs)
  have l: "map_of ?route ''legs'' = Some (PList (PDict ?leg # [PDict [(''distance'', PNone)]]))"
    by simp
  have d: "value_text (PDict ?leg) ''distance''
             = Inr (PDict [(''value'', PInt 1200), (''text'', PStr ''1.2 km'')])"
    by (simp add: value_text_def subscript2_def dict_lit_def dict_items_Cons bindE_def)
  have u: "value_text (PDict ?leg) ''duration''
             = Inr (PDict [(''value'', PInt 300), (''text'', PStr ''5 mins'')])"
    by (simp add: value_text_def subscript2_def dict_lit_def dict_items_Cons bindE_def)
  have a: "format_time example_lib (PDict [(''value'', PInt 1767605400)])
             = Inr (PStr ''2026-01-05 09:30:00'')"
    by (simp add: format_time_def bindE_def example_lib_def)
  from directions_first_route_first_leg [OF r l d u, of example_lib] a
  show ?thesis
    by (simp add: bindE_def format_time_def example_route_def example_leg_def)
qed

section \<open>The samples of the elevation operation\<close>





end
